theory Spec2Isabelle
  imports Complex_Main
begin

section \<open>Python numbers\<close>

text \<open>
  The function-agent notebook defines one function of its own,

  \<^verbatim>\<open>def multiply(a: float, b: float) -> float: return a * b\<close>

  Python does not enforce the annotation, and an \<open>int\<close> is accepted wherever a
  \<open>float\<close> is expected, so the arguments are Python numbers: unbounded integers or
  binary64 floats. A finite float is \<open>(-1)^s * m * 2^e\<close>; the floats Python produces are
  the canonical ones (\<open>canonical\<close> below): \<open>m < 2^53\<close>, \<open>-1074 \<le> e \<le> 971\<close>, and
  \<open>2^52 \<le> m\<close> unless \<open>e = -1074\<close> (subnormals and zero). A NaN keeps its sign bit and
  its payload, the 52-bit fraction field, which is not zero; the NaN is quiet when bit
  51 of the payload is set. \<open>float('nan')\<close> is \<open>NaN False (2^51)\<close>.
\<close>

datatype pyfloat = Finite bool nat int | Infinity bool | NaN bool nat

datatype pynum = PInt int | PFloat pyfloat

datatype exc = OverflowError | External string

fun canonical :: "pyfloat \<Rightarrow> bool" where
  "canonical (Finite s m e) =
     (m < 2 ^ 53 \<and> - 1074 \<le> e \<and> e \<le> 971 \<and> (2 ^ 52 \<le> m \<or> e = - 1074))"
| "canonical (Infinity s) = True"
| "canonical (NaN s p) = (0 < p \<and> p < 2 ^ 52)"

text \<open>The real number a finite float stands for.\<close>

fun valof :: "pyfloat \<Rightarrow> real" where
  "valof (Finite s m e) = (if s then - 1 else 1) * (real m * 2 powi e)"
| "valof (Infinity s) = 0"
| "valof (NaN s p) = 0"

fun is_finite :: "pyfloat \<Rightarrow> bool" where
  "is_finite (Finite s m e) = True"
| "is_finite (Infinity s) = False"
| "is_finite (NaN s p) = False"

fun is_nan :: "pyfloat \<Rightarrow> bool" where
  "is_nan (NaN s p) = True"
| "is_nan (Finite s m e) = False"
| "is_nan (Infinity s) = False"

text \<open>\<open>int.bit_length\<close>: the number of binary digits of a natural number.\<close>

fun bit_length :: "nat \<Rightarrow> nat" where
  "bit_length n = (if n = 0 then 0 else Suc (bit_length (n div 2)))"

declare bit_length.simps [simp del]

definition pack :: "bool \<Rightarrow> nat \<Rightarrow> int \<Rightarrow> pyfloat" where
  "pack s m e = (if 971 < e then Infinity s else Finite s m e)"

text \<open>
  Rounding of the exact value \<open>(-1)^s * M * 2^E\<close> to binary64, to nearest with ties to
  even, as the hardware multiplication and CPython's int-to-float conversion do. The
  result's exponent is \<open>e'\<close>; when \<open>e'\<close> lies above \<open>E\<close> the low \<open>e' - E\<close> bits of
  \<open>M\<close> are dropped.
\<close>

definition fround :: "bool \<Rightarrow> nat \<Rightarrow> int \<Rightarrow> pyfloat" where
  "fround s M E =
     (if M = 0 then Finite s 0 (- 1074)
      else
        let e' = max (E + int (bit_length M) - 53) (- 1074) in
        if e' \<le> E then pack s (M * 2 ^ nat (E - e')) e'
        else
          let d = nat (e' - E);
              q = M div 2 ^ d;
              r = M mod 2 ^ d;
              h = 2 ^ (d - 1);
              m = (if h < r \<or> (r = h \<and> odd q) then q + 1 else q)
          in if m = 2 ^ 53 then pack s (2 ^ 52) (e' + 1) else pack s m e')"

text \<open>
  \<open>float.__mul__\<close> is the C expression \<open>a * b\<close> on doubles: IEEE 754 multiplication; it
  never raises. IEEE 754 leaves open which NaN an operation returns. The equations
  below are those of the x86-64 instruction CPython's multiplication compiles to: a NaN
  operand is returned, the first one when both are NaN, with its quiet bit set, and
  \<open>inf * 0\<close> gives the default NaN, whose sign bit is set.
\<close>

definition quiet :: "bool \<Rightarrow> nat \<Rightarrow> pyfloat" where
  "quiet s p = NaN s (if p < 2 ^ 51 then p + 2 ^ 51 else p)"

definition default_nan :: pyfloat where
  "default_nan = NaN True (2 ^ 51)"

fun fmul :: "pyfloat \<Rightarrow> pyfloat \<Rightarrow> pyfloat" where
  "fmul (NaN s p) y = quiet s p"
| "fmul x (NaN t q) = quiet t q"
| "fmul (Infinity s) (Infinity t) = Infinity (s \<noteq> t)"
| "fmul (Infinity s) (Finite t n f) = (if n = 0 then default_nan else Infinity (s \<noteq> t))"
| "fmul (Finite s m e) (Infinity t) = (if m = 0 then default_nan else Infinity (s \<noteq> t))"
| "fmul (Finite s m e) (Finite t n f) = fround (s \<noteq> t) (m * n) (e + f)"

text \<open>
  The conversion of an \<open>int\<close> operand when the other operand is a float: correctly
  rounded, and \<open>OverflowError\<close> when the integer is too large for a float.
\<close>

definition int_to_float :: "int \<Rightarrow> exc + pyfloat" where
  "int_to_float i =
     (case fround (i < 0) (nat \<bar>i\<bar>) 0 of
        Infinity s \<Rightarrow> Inl OverflowError
      | x \<Rightarrow> Inr x)"

text \<open>Python's binary \<open>*\<close> on numbers.\<close>

fun py_mul :: "pynum \<Rightarrow> pynum \<Rightarrow> exc + pynum" where
  "py_mul (PInt i) (PInt j) = Inr (PInt (i * j))"
| "py_mul (PFloat x) (PFloat y) = Inr (PFloat (fmul x y))"
| "py_mul (PInt i) (PFloat y) =
     (case int_to_float i of Inl err \<Rightarrow> Inl err | Inr x \<Rightarrow> Inr (PFloat (fmul x y)))"
| "py_mul (PFloat x) (PInt j) =
     (case int_to_float j of Inl err \<Rightarrow> Inl err | Inr y \<Rightarrow> Inr (PFloat (fmul x y)))"

text \<open>The notebook's function.\<close>

definition multiply :: "pynum \<Rightarrow> pynum \<Rightarrow> exc + pynum" where
  "multiply a b = py_mul a b"

text \<open>A call that returns a NaN.\<close>

fun nan_result :: "exc + pynum \<Rightarrow> bool" where
  "nan_result (Inr (PFloat x)) = is_nan x"
| "nan_result (Inr (PInt i)) = False"
| "nan_result (Inl err) = False"

section \<open>The notebooks\<close>

text \<open>
  Everything else the four notebooks do is a call into code that is not theirs: the
  \<open>dotenv\<close>, \<open>os\<close>, \<open>openai\<close> and \<open>llama_index\<close> libraries and the builtins
  \<open>str\<close> and \<open>print\<close>. A notebook is therefore modelled as a function of the
  environment \<open>env\<close> that answers these calls: \<open>env c w\<close> is what call \<open>c\<close> does in
  the outside world \<open>w\<close> (the process environment, the file system, the network, the
  library objects and the screen): the value it returns or the exception it raises,
  and the world afterwards. Nothing is assumed about \<open>env\<close>.

  The cells of a notebook run top to bottom; \<open>import\<close> statements only bind names and
  are left out. The value a notebook function returns is the value of the last cell's
  trailing expression (\<open>None\<close> for a statement), which the interactive environment, not
  the notebook, would display.
\<close>

datatype pyval =
    PNone
  | PBool bool
  | PStr string
  | PObj nat
  | PList "pyval list"
  | PFun string

datatype toolspec = DuckDuckGoSearchToolSpec | ArxivToolSpec | CodeInterpreterToolSpec

text \<open>
  The calls the notebooks make, with their arguments as written in the source:
  \<^item> \<open>Load_dotenv b\<close>: \<open>load_dotenv(override=b)\<close>; \<open>load_dotenv()\<close> is \<open>Load_dotenv False\<close>;
  \<^item> \<open>Getenv n\<close>: \<open>os.getenv(n)\<close>;
  \<^item> \<open>Set_openai_api_key v\<close>: the assignment \<open>openai.api_key = v\<close>;
  \<^item> \<open>OpenAI_llm m k\<close>: \<open>OpenAI(model=m)\<close> when \<open>k = None\<close>, \<open>OpenAI(model=m, api_key=v)\<close>
    when \<open>k = Some v\<close>;
  \<^item> \<open>New_toolspec t\<close>: the constructor call \<open>t()\<close>;
  \<^item> \<open>To_tool_list s\<close>: \<open>s.to_tool_list()\<close>;
  \<^item> \<open>FunctionAgent_new tools llm prompt\<close>:
    \<open>FunctionAgent(tools=tools, llm=llm, system_prompt=prompt)\<close>;
  \<^item> \<open>From_tools tools llm verbose\<close>: \<open>OpenAIAgent.from_tools(tools, llm=..., verbose=...)\<close>,
    \<open>llm = None\<close> and \<open>verbose = False\<close> where the source leaves the argument out;
  \<^item> \<open>Agent_chat a u\<close>: \<open>a.chat(u)\<close>; \<open>Agent_run a u\<close>: \<open>await a.run(u)\<close>;
  \<^item> \<open>Str v\<close>: \<open>str(v)\<close>; \<open>Print v\<close>: \<open>print(v)\<close>.
\<close>

datatype call =
    Load_dotenv bool
  | Getenv string
  | Set_openai_api_key pyval
  | OpenAI_llm string "pyval option"
  | New_toolspec toolspec
  | To_tool_list pyval
  | FunctionAgent_new pyval pyval string
  | From_tools pyval "pyval option" bool
  | Agent_chat pyval string
  | Agent_run pyval string
  | Str pyval
  | Print pyval

type_synonym response = "exc + pyval"

type_synonym 'w env = "call \<Rightarrow> 'w \<Rightarrow> response \<times> 'w"

text \<open>
  The trace of a run records every call in order: the call, the world before it, the
  response and the world after it.
\<close>

datatype 'w event = Event (ev_call: call) (ev_pre: 'w) (ev_resp: response) (ev_post: 'w)

type_synonym ('w, 'a) py = "'w \<times> 'w event list \<Rightarrow> (exc + 'a) \<times> 'w \<times> 'w event list"

definition py_return :: "'a \<Rightarrow> ('w, 'a) py" where
  "py_return x = (\<lambda>s. (Inr x, s))"

text \<open>
  Sequencing of statements: an exception raised by the first part ends the run, since
  no statement of any notebook stands inside a \<open>try\<close>.
\<close>

definition py_bind :: "('w, 'a) py \<Rightarrow> ('a \<Rightarrow> ('w, 'b) py) \<Rightarrow> ('w, 'b) py" where
  "py_bind m f = (\<lambda>s. case m s of (Inl e, s') \<Rightarrow> (Inl e, s') | (Inr x, s') \<Rightarrow> f x s')"

definition ext :: "'w env \<Rightarrow> call \<Rightarrow> ('w, pyval) py" where
  "ext env c = (\<lambda>(w, tr). case env c w of (r, w') \<Rightarrow> (r, w', tr @ [Event c w r w']))"

definition run :: "('w, 'a) py \<Rightarrow> 'w \<Rightarrow> (exc + 'a) \<times> 'w \<times> 'w event list" where
  "run m w = m (w, [])"

definition outcome :: "(exc + 'a) \<times> 'w \<times> 'w event list \<Rightarrow> exc + 'a" where
  "outcome r = fst r"

definition final_world :: "(exc + 'a) \<times> 'w \<times> 'w event list \<Rightarrow> 'w" where
  "final_world r = fst (snd r)"

definition trace :: "(exc + 'a) \<times> 'w \<times> 'w event list \<Rightarrow> 'w event list" where
  "trace r = snd (snd r)"

definition calls :: "(exc + 'a) \<times> 'w \<times> 'w event list \<Rightarrow> call list" where
  "calls r = map ev_call (trace r)"

subsection \<open>The function-agent notebook\<close>

text \<open>
  \<^verbatim>\<open>
  load_dotenv(override=True)
  api_key = os.getenv("OPENAI_API_KEY")
  def multiply(a: float, b: float) -> float: ...
  agent = FunctionAgent(
      tools=[multiply],
      llm=OpenAI(model="gpt-4o-mini", api_key=api_key),
      system_prompt="You are a helpful assistant that can multiply two numbers."
  )
  async def main():
      response = await agent.run("What is 1234 * 4567?")
      print(str(response))
  response = await main()
  \<close>
\<close>

definition main :: "'w env \<Rightarrow> pyval \<Rightarrow> ('w, pyval) py" where
  "main env agent =
     py_bind (ext env (Agent_run agent ''What is 1234 * 4567?'')) (\<lambda>response.
     py_bind (ext env (Str response)) (\<lambda>text.
     py_bind (ext env (Print text)) (\<lambda>_.
     py_return PNone)))"

definition function_agent :: "'w env \<Rightarrow> ('w, pyval) py" where
  "function_agent env =
     py_bind (ext env (Load_dotenv True)) (\<lambda>_.
     py_bind (ext env (Getenv ''OPENAI_API_KEY'')) (\<lambda>api_key.
     py_bind (ext env (OpenAI_llm ''gpt-4o-mini'' (Some api_key))) (\<lambda>llm.
     py_bind (ext env (FunctionAgent_new (PList [PFun ''multiply'']) llm
        ''You are a helpful assistant that can multiply two numbers.'')) (\<lambda>agent.
     py_bind (main env agent) (\<lambda>response.
     py_return PNone)))))"

subsection \<open>The code-interpreter notebook\<close>

text \<open>
  \<^verbatim>\<open>
  load_dotenv(override=True)
  openai.api_key = os.getenv("OPENAI_API_KEY")
  code_spec = CodeInterpreterToolSpec()
  tools = code_spec.to_tool_list()
  agent = OpenAIAgent.from_tools(tools, verbose=True)
  print(agent.chat("Can you help me write some python code ..."))
  print(agent.chat("""There is a world_happiness_2016.csv file ..."""))
  print(agent.chat("What are the top 10 happiest countries"))
  print(agent.chat("Can you make a graph of the top 10 happiest countries"))
  print(agent.chat("I cant see the plot - can you save it locally ..."))
  print(agent.chat("can you also plot the 10 lowest"))
  agent.chat("can you do it in one plot")
  \<close>
  The last cell is the bare expression: its value is not passed to \<open>print\<close>.
\<close>

definition turn1 :: string where
  "turn1 = ''Can you help me write some python code to pass to the code_interpreter tool''"

definition turn2 :: string where
  "turn2 = ''There is a world_happiness_2016.csv file in the `data` directory (relative path).''
     @ [CHR 0x0A]
     @ ''                 Can you write and execute code to tell me columns does it have?''"

definition turn3 :: string where
  "turn3 = ''What are the top 10 happiest countries''"

definition turn4 :: string where
  "turn4 = ''Can you make a graph of the top 10 happiest countries''"

definition turn5 :: string where
  "turn5 = ''I cant see the plot - can you save it locally with file name `output.png`?''"

definition turn6 :: string where
  "turn6 = ''can you also plot the 10 lowest''"

definition turn7 :: string where
  "turn7 = ''can you do it in one plot''"

definition print_chat :: "'w env \<Rightarrow> pyval \<Rightarrow> string \<Rightarrow> ('w, pyval) py" where
  "print_chat env agent u =
     py_bind (ext env (Agent_chat agent u)) (\<lambda>response. ext env (Print response))"

definition code_interpreter_agent :: "'w env \<Rightarrow> ('w, pyval) py" where
  "code_interpreter_agent env =
     py_bind (ext env (Load_dotenv True)) (\<lambda>_.
     py_bind (ext env (Getenv ''OPENAI_API_KEY'')) (\<lambda>key.
     py_bind (ext env (Set_openai_api_key key)) (\<lambda>_.
     py_bind (ext env (New_toolspec CodeInterpreterToolSpec)) (\<lambda>code_spec.
     py_bind (ext env (To_tool_list code_spec)) (\<lambda>tools.
     py_bind (ext env (From_tools tools None True)) (\<lambda>agent.
     py_bind (print_chat env agent turn1) (\<lambda>_.
     py_bind (print_chat env agent turn2) (\<lambda>_.
     py_bind (print_chat env agent turn3) (\<lambda>_.
     py_bind (print_chat env agent turn4) (\<lambda>_.
     py_bind (print_chat env agent turn5) (\<lambda>_.
     py_bind (print_chat env agent turn6) (\<lambda>_.
     ext env (Agent_chat agent turn7)))))))))))))"

subsection \<open>The DuckDuckGo notebook\<close>

text \<open>
  \<^verbatim>\<open>
  load_dotenv()
  tool_spec = DuckDuckGoSearchToolSpec()
  agent = OpenAIAgent.from_tools(tool_spec.to_tool_list())
  response1 = agent.chat("Quantum Computing and AI")
  print(response1)
  response2 = agent.chat("what are the latest developments in machine learning")
  print(response2)
  \<close>
\<close>

definition duckduckgo_agent :: "'w env \<Rightarrow> ('w, pyval) py" where
  "duckduckgo_agent env =
     py_bind (ext env (Load_dotenv False)) (\<lambda>_.
     py_bind (ext env (New_toolspec DuckDuckGoSearchToolSpec)) (\<lambda>tool_spec.
     py_bind (ext env (To_tool_list tool_spec)) (\<lambda>tools.
     py_bind (ext env (From_tools tools None False)) (\<lambda>agent.
     py_bind (ext env (Agent_chat agent ''Quantum Computing and AI'')) (\<lambda>response1.
     py_bind (ext env (Print response1)) (\<lambda>_.
     py_bind (ext env (Agent_chat agent
        ''what are the latest developments in machine learning'')) (\<lambda>response2.
     ext env (Print response2))))))))"

subsection \<open>The arXiv notebook\<close>

text \<open>
  \<^verbatim>\<open>
  load_dotenv(override=True)
  openai.api_key = os.getenv("OPENAI_API_KEY")
  llm = OpenAI(model="gpt-4o-mini")
  arxiv_tool = ArxivToolSpec()
  agent = OpenAIAgent.from_tools(arxiv_tool.to_tool_list(), llm=llm, verbose=True)
  print(agent.chat("Whats going on with the superconductor lk-99"))
  \<close>
\<close>

definition arxiv_research_agent :: "'w env \<Rightarrow> ('w, pyval) py" where
  "arxiv_research_agent env =
     py_bind (ext env (Load_dotenv True)) (\<lambda>_.
     py_bind (ext env (Getenv ''OPENAI_API_KEY'')) (\<lambda>key.
     py_bind (ext env (Set_openai_api_key key)) (\<lambda>_.
     py_bind (ext env (OpenAI_llm ''gpt-4o-mini'' None)) (\<lambda>llm.
     py_bind (ext env (New_toolspec ArxivToolSpec)) (\<lambda>arxiv_tool.
     py_bind (ext env (To_tool_list arxiv_tool)) (\<lambda>tools.
     py_bind (ext env (From_tools tools (Some llm) True)) (\<lambda>agent.
     py_bind (ext env (Agent_chat agent
        ''Whats going on with the superconductor lk-99'')) (\<lambda>response.
     ext env (Print response)))))))))"

section \<open>Properties of traces\<close>

fun raised :: "response \<Rightarrow> bool" where
  "raised (Inl e) = True"
| "raised (Inr v) = False"

text \<open>
  A run propagates exceptions when it ends with exception \<open>e\<close> exactly if its last call
  raised \<open>e\<close> and no call before it raised, and completes only if no call raised.
\<close>

definition propagates :: "(exc + 'a) \<times> 'w \<times> 'w event list \<Rightarrow> bool" where
  "propagates r =
     (case outcome r of
        Inl e \<Rightarrow>
          trace r \<noteq> [] \<and> ev_resp (last (trace r)) = Inl e \<and>
          \<not> list_ex (\<lambda>ev. raised (ev_resp ev)) (butlast (trace r))
      | Inr v \<Rightarrow> \<not> list_ex (\<lambda>ev. raised (ev_resp ev)) (trace r))"

fun constructs_agent :: "call \<Rightarrow> bool" where
  "constructs_agent (FunctionAgent_new tools llm prompt) = True"
| "constructs_agent (From_tools tools llm verbose) = True"
| "constructs_agent c = False"

fun turn_agent :: "call \<Rightarrow> pyval option" where
  "turn_agent (Agent_chat a u) = Some a"
| "turn_agent (Agent_run a u) = Some a"
| "turn_agent c = None"


text \<open>
  \<open>single_agent cur tr\<close>: along \<open>tr\<close>, an agent is constructed only while none exists
  (\<open>cur = None\<close>), and every chat turn is a call on the agent the construction returned.
\<close>

fun single_agent :: "response option \<Rightarrow> 'w event list \<Rightarrow> bool" where
  "single_agent cur [] = True"
| "single_agent cur (ev # evs) =
     (if constructs_agent (ev_call ev) then cur = None \<and> single_agent (Some (ev_resp ev)) evs
      else case turn_agent (ev_call ev) of
             Some a \<Rightarrow> cur = Some (Inr a) \<and> single_agent cur evs
           | None \<Rightarrow> single_agent cur evs)"

text \<open>\<open>threaded w tr\<close>: every call of \<open>tr\<close> starts in the world the call before it left.\<close>

fun threaded :: "'w \<Rightarrow> 'w event list \<Rightarrow> bool" where
  "threaded w [] = True"
| "threaded w (ev # evs) = (ev_pre ev = w \<and> threaded (ev_post ev) evs)"



fun reads_file :: "call \<Rightarrow> bool" where
  "reads_file (Load_dotenv override) = True"
| "reads_file c = False"

text \<open>
  \<open>prints_replies prev tr\<close>: every \<open>print\<close> of \<open>tr\<close> is given the value that the call
  just before it returned, and that call is a chat turn or the \<open>str\<close> of one.
\<close>

fun gives_text :: "call \<Rightarrow> bool" where
  "gives_text (Agent_chat a u) = True"
| "gives_text (Str v) = True"
| "gives_text c = False"

fun prints_replies :: "'w event option \<Rightarrow> 'w event list \<Rightarrow> bool" where
  "prints_replies prev [] = True"
| "prints_replies prev (ev # evs) =
     ((case ev_call ev of
         Print v \<Rightarrow>
           (case prev of
              None \<Rightarrow> False
            | Some p \<Rightarrow> gives_text (ev_call p) \<and> ev_resp p = Inr v)
       | _ \<Rightarrow> True)
      \<and> prints_replies (Some ev) evs)"

text \<open>
  The local code's own input and output: the one read of the \<open>.env\<close> file, first of
  all calls, and prints of the agent's replies.
\<close>

definition local_io :: "'w event list \<Rightarrow> bool" where
  "local_io tr =
     ((case map ev_call tr of
         [] \<Rightarrow> False
       | c # cs \<Rightarrow> reads_file c \<and> \<not> list_ex reads_file cs)
      \<and> prints_replies None tr)"

text \<open>The key argument of the calls that hand the API key to the client library, hidden.\<close>

fun redact :: "call \<Rightarrow> call" where
  "redact (OpenAI_llm model (Some k)) = OpenAI_llm model (Some PNone)"
| "redact (Set_openai_api_key k) = Set_openai_api_key PNone"
| "redact c = c"

text \<open>
  An environment that answers the calls from a script, whatever they are: the world is
  the list of responses still to give. Two runs against it see the same outside
  behaviour exactly when their scripts agree.
\<close>

fun scripted :: "response list env" where
  "scripted c [] = (Inl (External ''end of script''), [])"
| "scripted c (r # rs) = (r, rs)"

text \<open>Two runs that differ at most in the key handed over.\<close>

definition same_but_key ::
  "(exc + 'a) \<times> 'w \<times> 'w event list \<Rightarrow> (exc + 'a) \<times> 'w \<times> 'w event list \<Rightarrow> bool" where
  "same_but_key r1 r2 =
     (map redact (calls r1) = map redact (calls r2) \<and> outcome r1 = outcome r2)"

text \<open>
  \<open>proceeds prefix r\<close>: the run \<open>r\<close> starts with the calls \<open>prefix\<close> and then goes on
  until the agent is constructed, unless a call into the libraries raises first.
\<close>

definition library_raised :: "(exc + 'a) \<times> 'w \<times> 'w event list \<Rightarrow> bool" where
  "library_raised r = list_ex (\<lambda>ev. raised (ev_resp ev)) (trace r)"

definition agent_built :: "(exc + 'a) \<times> 'w \<times> 'w event list \<Rightarrow> bool" where
  "agent_built r = list_ex constructs_agent (calls r)"

definition proceeds :: "call list \<Rightarrow> (exc + 'a) \<times> 'w \<times> 'w event list \<Rightarrow> bool" where
  "proceeds prefix r =
     (take (length prefix) (calls r) = prefix \<and> (library_raised r \<or> agent_built r))"

text \<open>
  The number of agent constructions in a trace: one in a run that completes, at most
  one in a run that an exception ended.
\<close>

definition constructions :: "'w event list \<Rightarrow> nat" where
  "constructions tr = length (filter (\<lambda>ev. constructs_agent (ev_call ev)) tr)"

fun built_once :: "exc + 'a \<Rightarrow> nat \<Rightarrow> bool" where
  "built_once (Inr v) n = (n = 1)"
| "built_once (Inl e) n = (n \<le> 1)"

definition one_agent :: "'w \<Rightarrow> (exc + 'a) \<times> 'w \<times> 'w event list \<Rightarrow> bool" where
  "one_agent w r =
     (single_agent None (trace r) \<and> threaded w (trace r) \<and>
      built_once (outcome r) (constructions (trace r)))"

text \<open>
  For comparison only: \<open>try: m except Exception as e: h(e)\<close>. No notebook contains a
  \<open>try\<close> statement, so no notebook function is built with \<open>py_try\<close>; it serves to show
  that \<open>propagates\<close> fails for code that does catch.
\<close>

definition py_try :: "('w, 'a) py \<Rightarrow> (exc \<Rightarrow> ('w, 'a) py) \<Rightarrow> ('w, 'a) py" where
  "py_try m h = (\<lambda>s. case m s of (Inl e, s') \<Rightarrow> h e s' | (Inr x, s') \<Rightarrow> (Inr x, s'))"

subsection \<open>Steps and turns\<close>















section \<open>A stand-in for the libraries\<close>

text \<open>
  A small, deterministic environment on which the theorems are instantiated. Its world
  holds the process environment, the contents of the \<open>.env\<close> file, the number of
  library objects created, what the agent has been told so far, and what has been
  printed.
\<close>

record world =
  environ :: "string \<rightharpoonup> string"
  dotenv_file :: "string \<rightharpoonup> string"
  objects :: nat
  memory :: "string list"
  screen :: "pyval list"

text \<open>
  Modelled from the spec: \<open>load_dotenv\<close> belongs to the \<open>python-dotenv\<close> library, whose
  code is not part of the repository. With \<open>override=True\<close> a value defined in the
  \<open>.env\<close> file replaces any value the process environment already has; without it a
  value the environment already has takes precedence over the file's.
\<close>

definition load_dotenv :: "bool \<Rightarrow> world \<Rightarrow> world" where
  "load_dotenv override w =
     w\<lparr>environ := (if override then environ w ++ dotenv_file w
                   else dotenv_file w ++ environ w)\<rparr>"

definition getenv :: "string \<Rightarrow> world \<Rightarrow> pyval" where
  "getenv name w = (case environ w name of None \<Rightarrow> PNone | Some v \<Rightarrow> PStr v)"

definition new_object :: "world \<Rightarrow> response \<times> world" where
  "new_object w = (Inr (PObj (objects w)), w\<lparr>objects := Suc (objects w)\<rparr>)"

text \<open>
  A chat turn fails without a key in the process environment; otherwise the agent
  remembers the utterance and replies with everything it has been told so far.
\<close>

definition chat :: "string \<Rightarrow> world \<Rightarrow> response \<times> world" where
  "chat u w =
     (if environ w ''OPENAI_API_KEY'' = None then (Inl (External ''AuthenticationError''), w)
      else (Inr (PList (map PStr (memory w @ [u]))), w\<lparr>memory := memory w @ [u]\<rparr>))"

fun stub_lib :: "world env" where
  "stub_lib (Load_dotenv override) w = (Inr (PBool True), load_dotenv override w)"
| "stub_lib (Getenv name) w = (Inr (getenv name w), w)"
| "stub_lib (Set_openai_api_key v) w = (Inr PNone, w)"
| "stub_lib (OpenAI_llm model key) w = new_object w"
| "stub_lib (New_toolspec t) w = new_object w"
| "stub_lib (To_tool_list spec) w = (Inr (PList [spec]), w)"
| "stub_lib (FunctionAgent_new tools llm prompt) w = new_object w"
| "stub_lib (From_tools tools llm verbose) w = new_object w"
| "stub_lib (Agent_chat agent u) w = chat u w"
| "stub_lib (Agent_run agent u) w = chat u w"
| "stub_lib (Str v) w = (Inr v, w)"
| "stub_lib (Print v) w = (Inr PNone, w\<lparr>screen := screen w @ [v]\<rparr>)"

text \<open>
  Two starting worlds: one with nothing set, one where both the process environment
  and the \<open>.env\<close> file define the key.
\<close>

definition bare_world :: world where
  "bare_world =
     \<lparr>environ = Map.empty, dotenv_file = Map.empty, objects = 0, memory = [], screen = []\<rparr>"

definition keyed_world :: world where
  "keyed_world =
     \<lparr>environ = [''OPENAI_API_KEY'' \<mapsto> ''sk-from-environment''],
      dotenv_file = [''OPENAI_API_KEY'' \<mapsto> ''sk-from-file''],
      objects = 0, memory = [], screen = []\<rparr>"

section \<open>Lemmas about rounding\<close>

lemma bit_length_0: "bit_length 0 = 0"
  by (simp add: bit_length.simps)

lemma bit_length_1: "bit_length (Suc 0) = 1"
  by (simp add: bit_length.simps)

lemma bit_length_numeral:
  "bit_length (numeral k) = Suc (bit_length (numeral k div 2))"
  by (subst bit_length.simps) simp

lemmas bit_length_eval = bit_length_0 bit_length_1 bit_length_numeral

lemma bit_length_bounds:
  "0 < n \<Longrightarrow> 2 ^ (bit_length n - 1) \<le> n \<and> n < 2 ^ bit_length n"
proof (induction n rule: bit_length.induct)
  case (1 n)
  show ?case
  proof (cases "n div 2 = 0")
    case True
    with "1.prems" have "n = 1" by (simp add: div_eq_0_iff)
    then show ?thesis by (simp add: bit_length.simps)
  next
    case False
    then have pos: "0 < n div 2" by simp
    from "1.prems" have n0: "n \<noteq> 0" by simp
    from "1.IH"[OF n0 pos] have lo: "2 ^ (bit_length (n div 2) - 1) \<le> n div 2"
      and hi: "n div 2 < 2 ^ bit_length (n div 2)" by simp_all
    have bl: "bit_length n = Suc (bit_length (n div 2))"
      using n0 by (subst bit_length.simps) simp
    have "0 < bit_length (n div 2)"
      using False by (subst bit_length.simps) simp
    then obtain k where k: "bit_length (n div 2) = Suc k"
      by (cases "bit_length (n div 2)") auto
    from lo k have "2 ^ k \<le> n div 2" by simp
    then have "2 * 2 ^ k \<le> n" by linarith
    moreover from hi have "n < 2 * 2 ^ bit_length (n div 2)" by linarith
    ultimately show ?thesis by (simp add: bl k)
  qed
qed

lemma pow2_less_cancel: "(2::real) powi a < 2 powi b \<Longrightarrow> a < b"
proof (rule ccontr)
  assume lt: "(2::real) powi a < 2 powi b" and "\<not> a < b"
  then have "b \<le> a" by simp
  then have "(2::real) powi b \<le> 2 powi a" by (rule power_int_increasing) simp
  with lt show False by simp
qed

lemma pow2_split: "(2::real) powi (a + b) = 2 powi a * 2 powi b"
  by (rule power_int_add) simp

lemma pow2_nat: "0 \<le> k \<Longrightarrow> (2::real) powi k = 2 ^ nat k"
  by (rule power_int_nonneg_exp)

text \<open>Rounding leaves a value that is a binary64 number as it is.\<close>

lemma fround_exact:
  assumes M: "M \<noteq> 0" and m': "m' < 2 ^ 53" and lo: "- 1074 \<le> e''" and hi: "e'' \<le> 971"
    and eq: "real M * 2 powi E = real m' * 2 powi e''"
  shows "\<exists>m e. fround s M E = Finite s m e \<and> real m * 2 powi e = real M * 2 powi E"
proof -
  define bl where "bl = bit_length M"
  define e' where "e' = max (E + int bl - 53) (- 1074)"
  from M bit_length_bounds[of M] have b1: "2 ^ (bl - 1) \<le> M" and b2: "M < 2 ^ bl"
    by (simp_all add: bl_def)
  from b2 M have blpos: "0 < bl" by (cases bl) auto
  have "int bl - 1 = int (bl - 1)" using blpos by simp
  then have "(2::real) powi (int bl - 1 + E) = 2 powi int (bl - 1) * 2 powi E"
    by (simp only: pow2_split)
  also have "\<dots> = 2 ^ (bl - 1) * 2 powi E"
    by (simp only: power_int_of_nat)
  also have "\<dots> \<le> real M * 2 powi E"
  proof (rule mult_right_mono)
    from b1 have "real (2 ^ (bl - 1)) \<le> real M" by (simp only: of_nat_le_iff)
    then show "2 ^ (bl - 1) \<le> real M" by simp
    show "0 \<le> (2::real) powi E" by simp
  qed
  also have "\<dots> = real m' * 2 powi e''" by (rule eq)
  also have "\<dots> < 2 ^ 53 * 2 powi e''"
  proof (rule mult_strict_right_mono)
    from m' have "real m' < real (2 ^ 53)" by (simp only: of_nat_less_iff)
    then show "real m' < 2 ^ 53" by simp
    show "0 < (2::real) powi e''" by simp
  qed
  also have "\<dots> = 2 powi (53 + e'')" by (simp add: pow2_split)
  finally have "int bl - 1 + E < 53 + e''" by (rule pow2_less_cancel)
  with lo have e'le: "e' \<le> e''" by (simp add: e'_def)
  with hi have e'hi: "e' \<le> 971" by simp
  have fr: "fround s M E =
     (if e' \<le> E then pack s (M * 2 ^ nat (E - e')) e'
        else
          let d = nat (e' - E);
              q = M div 2 ^ d;
              r = M mod 2 ^ d;
              h = 2 ^ (d - 1);
              m = (if h < r \<or> (r = h \<and> odd q) then q + 1 else q)
          in if m = 2 ^ 53 then pack s (2 ^ 52) (e' + 1) else pack s m e')"
    by (simp only: fround_def e'_def bl_def Let_def M if_False)
  show ?thesis
  proof (cases "e' \<le> E")
    case True
    have "real (M * 2 ^ nat (E - e')) * 2 powi e' = real M * (2 powi (E - e') * 2 powi e')"
      using True by (simp add: pow2_nat)
    also have "\<dots> = real M * 2 powi E" by (simp flip: pow2_split)
    finally show ?thesis using True e'hi by (auto simp: fr pack_def)
  next
    case False
    define d where "d = nat (e' - E)"
    from False have d: "int d = e' - E" by (simp add: d_def)
    define k where "k = nat (e'' - e')"
    from e'le have k: "int k = e'' - e'" by (simp add: k_def)
    have "real M * 2 powi E = real m' * (2 powi (int k + int d) * 2 powi E)"
      using eq by (simp add: k d flip: pow2_split)
    then have "real M = real (m' * 2 ^ (k + d))"
      by (simp add: power_int_add power_add)
    then have Meq: "M = m' * 2 ^ k * 2 ^ d"
      by (simp only: of_nat_eq_iff power_add mult.assoc)
    then have r0: "M mod 2 ^ d = 0" and q: "M div 2 ^ d = m' * 2 ^ k" by simp_all
    have hpos: "(0::nat) < 2 ^ (d - 1)" by simp
    have "real (m' * 2 ^ k) * 2 powi e' = real m' * (2 powi int k * 2 powi e')" by simp
    also have "\<dots> = real m' * 2 powi e''" by (simp add: k flip: pow2_split)
    finally have val: "real (m' * 2 ^ k) * 2 powi e' = real M * 2 powi E" using eq by simp
    have "int bl - int d \<le> 53" using d by (simp add: e'_def)
    then have "bl \<le> 53 + d" by linarith
    then have "(2::nat) ^ bl \<le> 2 ^ (53 + d)" by (intro power_increasing) simp_all
    with b2 have "M < 2 ^ (53 + d)" by (rule less_le_trans)
    then have "m' * 2 ^ k * 2 ^ d < 2 ^ 53 * 2 ^ d" by (simp only: Meq power_add)
    then have "m' * 2 ^ k < 2 ^ 53" by (simp only: mult_less_cancel2)
    then have ne: "m' * 2 ^ k \<noteq> 2 ^ 53" by simp
    show ?thesis
      using False e'hi val ne hpos
      by (auto simp: fr pack_def Let_def r0 q simp flip: d_def)
  qed
qed

lemma sign_mult:
  "(if s then - 1 else 1) * ((if t then - 1 else 1) :: real) = (if s \<noteq> t then - 1 else 1)"
  by simp

lemma fmul_exact:
  assumes z: "canonical (Finite u p g)"
    and eq: "valof (Finite u p g) = valof (Finite s m e) * valof (Finite t n f)"
  shows "is_finite (fmul (Finite s m e) (Finite t n f)) \<and>
         valof (fmul (Finite s m e) (Finite t n f)) = valof (Finite u p g)"
proof (cases "m * n = 0")
  case True
  then show ?thesis using eq by (auto simp: fround_def)
next
  case False
  have prod: "valof (Finite s m e) * valof (Finite t n f) =
      (if s \<noteq> t then - 1 else 1) * (real (m * n) * 2 powi (e + f))"
    by (simp add: pow2_split)
  have "\<bar>valof (Finite u p g)\<bar> = real p * 2 powi g"
    by (simp add: abs_mult)
  moreover have "\<bar>valof (Finite s m e) * valof (Finite t n f)\<bar> = real (m * n) * 2 powi (e + f)"
    unfolding prod by (simp add: abs_mult)
  ultimately have mag: "real (m * n) * 2 powi (e + f) = real p * 2 powi g"
    using eq by simp
  from z have "p < 2 ^ 53" "- 1074 \<le> g" "g \<le> 971" by simp_all
  from fround_exact[OF False this mag, of "s \<noteq> t"]
  obtain m1 e1 where r: "fround (s \<noteq> t) (m * n) (e + f) = Finite (s \<noteq> t) m1 e1"
    and v: "real m1 * 2 powi e1 = real (m * n) * 2 powi (e + f)" by blast
  have fm: "fmul (Finite s m e) (Finite t n f) = Finite (s \<noteq> t) m1 e1"
    using r by simp
  have "valof (Finite (s \<noteq> t) m1 e1) = (if s \<noteq> t then - 1 else 1) * (real m1 * 2 powi e1)"
    by (simp only: valof.simps)
  also have "\<dots> = (if s \<noteq> t then - 1 else 1) * (real (m * n) * 2 powi (e + f))"
    by (simp only: v)
  also have "\<dots> = valof (Finite s m e) * valof (Finite t n f)"
    by (simp only: prod)
  also have "\<dots> = valof (Finite u p g)"
    by (simp only: eq)
  finally show ?thesis by (simp only: fm is_finite.simps simp_thms)
qed

lemma fround_not_nan: "\<not> is_nan (fround s M E)"
  by (simp add: fround_def pack_def Let_def)

lemma fmul_nan_either: "is_nan (fmul y x) = is_nan (fmul x y)"
  by (cases x; cases y) (simp_all add: quiet_def default_nan_def fround_not_nan)

lemma fmul_commute: "\<not> is_nan x \<Longrightarrow> \<not> is_nan y \<Longrightarrow> fmul x y = fmul y x"
proof -
  have "(s \<noteq> t) = (t \<noteq> s)" for s t :: bool by auto
  then show "\<not> is_nan x \<Longrightarrow> \<not> is_nan y \<Longrightarrow> fmul x y = fmul y x"
    by (cases x; cases y) (simp_all add: mult.commute add.commute)
qed

lemma fmul_nan_operand: "is_nan x \<or> is_nan y \<Longrightarrow> is_nan (fmul x y)"
  by (cases x; cases y) (simp_all add: quiet_def)

section \<open>The multiplication tool\<close>

text \<open>
  Claim C1, as amended. \<open>multiply(a, b)\<close> returns Python's \<open>a * b\<close> and does nothing
  else: for two ints the exact integer product; for two floats the binary64 product
  \<open>fmul\<close>, never an exception; for an int and a float the int is converted to a float
  first, and the conversion is what can raise. The float product is the exact product
  \<open>a\<cdot>b\<close> whenever \<open>a\<cdot>b\<close> is itself a binary64 number \<open>z\<close>.
\<close>

theorem multiply_product:
  "multiply (PInt i) (PInt j) = Inr (PInt (i * j)) \<and>
   multiply (PFloat x) (PFloat y) = Inr (PFloat (fmul x y)) \<and>
   multiply (PInt i) (PFloat y) =
     (case int_to_float i of Inl err \<Rightarrow> Inl err | Inr x' \<Rightarrow> Inr (PFloat (fmul x' y))) \<and>
   multiply (PFloat x) (PInt j) =
     (case int_to_float j of Inl err \<Rightarrow> Inl err | Inr y' \<Rightarrow> Inr (PFloat (fmul x y'))) \<and>
   (is_finite x \<and> is_finite y \<and> is_finite z \<and> canonical z \<and>
      valof z = valof x * valof y \<longrightarrow>
    is_finite (fmul x y) \<and> valof (fmul x y) = valof x * valof y)"
proof -
  have "is_finite (fmul x y) \<and> valof (fmul x y) = valof x * valof y"
    if "is_finite x" "is_finite y" "is_finite z" "canonical z" "valof z = valof x * valof y"
  proof -
    from that obtain s m e t n f u p g
      where "x = Finite s m e" "y = Finite t n f" "z = Finite u p g"
      by (cases x; cases y; cases z) auto
    with that fmul_exact[of u p g s m e t n f] show ?thesis by simp
  qed
  then show ?thesis by (simp add: multiply_def)
qed

text \<open>
  The theorem at \<open>1234 * 4567\<close>, the notebook's own question, and at \<open>1.5 * 2.0\<close>,
  whose product \<open>3.0\<close> is a float.
\<close>

theorem multiply_product_witness:
  "multiply (PInt 1234) (PInt 4567) = Inr (PInt 5635678) \<and>
   multiply (PFloat (Finite False 6755399441055744 (- 52)))
            (PFloat (Finite False 4503599627370496 (- 51)))
     = Inr (PFloat (fmul (Finite False 6755399441055744 (- 52))
                         (Finite False 4503599627370496 (- 51)))) \<and>
   valof (fmul (Finite False 6755399441055744 (- 52)) (Finite False 4503599627370496 (- 51)))
     = 3"
  using multiply_product[of 1234 4567 "Finite False 6755399441055744 (- 52)"
      "Finite False 4503599627370496 (- 51)" "Finite False 6755399441055744 (- 51)"]
  by simp

text \<open>
  Claim C1 as stated (the result is exactly \<open>a\<cdot>b\<close> for every pair of inputs) fails on
  floats: \<open>134217729.0 * 134217729.0\<close> is \<open>18014398777917440.0\<close>, while the product of
  the two numbers is \<open>18014398777917441\<close>.
\<close>

theorem multiply_not_exact:
  "multiply (PFloat (Finite False 4503599660924928 (- 25)))
            (PFloat (Finite False 4503599660924928 (- 25)))
     = Inr (PFloat (Finite False 4503599694479360 2))
   \<and> valof (Finite False 4503599660924928 (- 25)) = 134217729
   \<and> valof (Finite False 4503599694479360 2) = 18014398777917440
   \<and> (134217729::real) * 134217729 = 18014398777917441"
  by (simp add: multiply_def fround_def pack_def Let_def bit_length_eval)

text \<open>
  Claim C8, as amended. \<open>multiply\<close> is commutative on every pair of numbers whose product
  is not a NaN: \<open>multiply(a, b)\<close> and \<open>multiply(b, a)\<close> then return the same number or
  raise the same exception. When \<open>multiply(a, b)\<close> is a NaN, so is \<open>multiply(b, a)\<close>, and
  nothing more is said of the two NaNs.
\<close>

theorem multiply_commutative_unless_nan:
  "nan_result (multiply b a) = nan_result (multiply a b) \<and>
   (\<not> nan_result (multiply a b) \<longrightarrow> multiply a b = multiply b a)"
proof -
  have ff: "nan_result (multiply (PFloat y) (PFloat x)) = nan_result (multiply (PFloat x) (PFloat y))
      \<and> (\<not> nan_result (multiply (PFloat x) (PFloat y)) \<longrightarrow>
           multiply (PFloat x) (PFloat y) = multiply (PFloat y) (PFloat x))" for x y
    using fmul_nan_either[of y x] fmul_nan_operand[of x y] fmul_commute[of x y]
    by (auto simp: multiply_def)
  have "multiply (PInt i) (PFloat y) = multiply (PFloat y) (PInt i)"
    if "\<not> nan_result (multiply (PInt i) (PFloat y))" for i y
  proof (cases "int_to_float i")
    case (Inl err)
    then show ?thesis by (simp add: multiply_def)
  next
    case (Inr x)
    with that have "\<not> is_nan (fmul x y)" by (simp add: multiply_def)
    with fmul_nan_operand[of x y] have "\<not> is_nan x" "\<not> is_nan y" by auto
    then show ?thesis using Inr by (simp add: multiply_def fmul_commute)
  qed
  moreover have "nan_result (multiply (PFloat y) (PInt i)) = nan_result (multiply (PInt i) (PFloat y))"
    for i y
    by (cases "int_to_float i") (simp_all add: multiply_def fmul_nan_either)
  ultimately show ?thesis
    using ff by (cases a; cases b) (auto simp: multiply_def mult.commute)
qed

text \<open>The theorem at \<open>3 * 1.5\<close> and \<open>1.5 * 3\<close>: both are \<open>4.5\<close>.\<close>

theorem multiply_commutative_unless_nan_witness:
  "multiply (PInt 3) (PFloat (Finite False 6755399441055744 (- 52))) =
     Inr (PFloat (Finite False 5066549580791808 (- 50))) \<and>
   multiply (PFloat (Finite False 6755399441055744 (- 52))) (PInt 3) =
     Inr (PFloat (Finite False 5066549580791808 (- 50)))"
  using multiply_commutative_unless_nan[of "PFloat (Finite False 6755399441055744 (- 52))"
      "PInt 3"]
  by (simp add: multiply_def int_to_float_def fround_def pack_def Let_def bit_length_eval)

text \<open>
  Claim C8 as stated fails where both arguments are NaN: \<open>nan * -nan\<close> is \<open>nan\<close> and
  \<open>-nan * nan\<close> is \<open>-nan\<close>, two floats that differ in the sign bit.
\<close>

theorem multiply_nan_order:
  "multiply (PFloat (NaN False 2251799813685248)) (PFloat (NaN True 2251799813685248)) =
     Inr (PFloat (NaN False 2251799813685248)) \<and>
   multiply (PFloat (NaN True 2251799813685248)) (PFloat (NaN False 2251799813685248)) =
     Inr (PFloat (NaN True 2251799813685248)) \<and>
   multiply (PFloat (NaN False 2251799813685248)) (PFloat (NaN True 2251799813685248)) \<noteq>
   multiply (PFloat (NaN True 2251799813685248)) (PFloat (NaN False 2251799813685248))"
  by (simp add: multiply_def quiet_def)

section \<open>Running a notebook\<close>

lemma py_bind_ext [simp]:
  "py_bind (ext env c) f (w, tr) =
     (case env c w of
        (Inl e, w') \<Rightarrow> (Inl e, w', tr @ [Event c w (Inl e) w'])
      | (Inr v, w') \<Rightarrow> f v (w', tr @ [Event c w (Inr v) w']))"
  by (simp add: py_bind_def ext_def split: prod.splits sum.splits)

lemma ext_apply [simp]:
  "ext env c (w, tr) =
     (case env c w of
        (Inl e, w') \<Rightarrow> (Inl e, w', tr @ [Event c w (Inl e) w'])
      | (Inr v, w') \<Rightarrow> (Inr v, w', tr @ [Event c w (Inr v) w']))"
  by (simp add: ext_def split: prod.splits sum.splits)

lemma py_bind_assoc [simp]:
  "py_bind (py_bind m f) g = py_bind m (\<lambda>x. py_bind (f x) g)"
  by (auto simp: py_bind_def fun_eq_iff split: prod.splits sum.splits)

lemma py_return_apply [simp]: "py_return x s = (Inr x, s)"
  by (simp add: py_return_def)

lemma py_bind_return [simp]: "py_bind (py_return x) f = f x"
  by (simp add: py_bind_def py_return_def)

lemmas nb_defs = function_agent_def main_def code_interpreter_agent_def print_chat_def
  duckduckgo_agent_def arxiv_research_agent_def run_def

lemmas obs_defs = outcome_def trace_def calls_def final_world_def

lemmas stub_defs = load_dotenv_def getenv_def new_object_def chat_def keyed_world_def
  bare_world_def

subsection \<open>Exceptions\<close>

lemma function_agent_propagates: "propagates (run (function_agent env) w)"
  apply (simp add: nb_defs split: prod.splits sum.splits)
  apply (simp add: propagates_def obs_defs)
  done

lemma code_interpreter_propagates: "propagates (run (code_interpreter_agent env) w)"
  apply (simp add: nb_defs split: prod.splits sum.splits)
  apply (simp add: propagates_def obs_defs)
  done

lemma duckduckgo_propagates: "propagates (run (duckduckgo_agent env) w)"
  apply (simp add: nb_defs split: prod.splits sum.splits)
  apply (simp add: propagates_def obs_defs)
  done

lemma arxiv_propagates: "propagates (run (arxiv_research_agent env) w)"
  apply (simp add: nb_defs split: prod.splits sum.splits)
  apply (simp add: propagates_def obs_defs)
  done

text \<open>Code that catches does not satisfy \<open>propagates\<close>.\<close>

lemma handler_does_not_propagate:
  "\<not> propagates
       (run (py_try (ext stub_lib (Agent_chat (PObj 0) u)) (\<lambda>e. py_return PNone)) bare_world)"
  by (simp add: py_try_def run_def obs_defs propagates_def stub_defs)

text \<open>
  Claim C2. No notebook catches an exception: in every environment, a run of any of the
  four notebooks ends with exception \<open>e\<close> exactly when its last call into the libraries
  raised \<open>e\<close>, the same \<open>e\<close>, with no call raising before it and none made after it (no
  retry, no recovery); and a run that completes has seen no exception.
\<close>

theorem exceptions_propagate:
  "propagates (run (function_agent env) w) \<and>
   propagates (run (code_interpreter_agent env) w) \<and>
   propagates (run (duckduckgo_agent env) w) \<and>
   propagates (run (arxiv_research_agent env) w)"
  by (simp only: function_agent_propagates code_interpreter_propagates
      duckduckgo_propagates arxiv_propagates simp_thms)

text \<open>
  With no key anywhere, the stand-in's agent raises at the first turn, and the
  function-agent notebook ends there with that exception.
\<close>

theorem exceptions_propagate_witness:
  "outcome (run (function_agent stub_lib) bare_world) = Inl (External ''AuthenticationError'') \<and>
   calls (run (function_agent stub_lib) bare_world) =
     [Load_dotenv True, Getenv ''OPENAI_API_KEY'', OpenAI_llm ''gpt-4o-mini'' (Some PNone),
      FunctionAgent_new (PList [PFun ''multiply'']) (PObj 0)
        ''You are a helpful assistant that can multiply two numbers.'',
      Agent_run (PObj 1) ''What is 1234 * 4567?''] \<and>
   propagates (run (function_agent stub_lib) bare_world)"
  using exceptions_propagate[of stub_lib bare_world]
  by (simp add: nb_defs obs_defs stub_defs)

subsection \<open>The steps of a notebook\<close>








subsection \<open>The API key\<close>

lemma scripted_case:
  "scripted c rs =
     (case rs of [] \<Rightarrow> (Inl (External ''end of script''), []) | r # rs' \<Rightarrow> (r, rs'))"
  by (cases rs) simp_all

lemma function_agent_hands_over:
  assumes "env (Load_dotenv True) w = (Inr v, w1)"
    and "env (Getenv ''OPENAI_API_KEY'') w1 = (Inr k, w2)"
  shows "take 3 (calls (run (function_agent env) w)) =
    [Load_dotenv True, Getenv ''OPENAI_API_KEY'', OpenAI_llm ''gpt-4o-mini'' (Some k)]"
  apply (simp add: nb_defs assms split: prod.splits sum.splits)
  apply (simp add: obs_defs)
  done

lemma function_agent_key_blind:
  "same_but_key (run (function_agent scripted) (r0 # Inr k1 # rs))
     (run (function_agent scripted) (r0 # Inr k2 # rs))"
  apply (cases r0)
   apply (simp add: nb_defs same_but_key_def obs_defs)
  apply (simp add: nb_defs same_but_key_def obs_defs scripted_case
      split: list.splits sum.splits)
  done

lemma code_interpreter_hands_over:
  assumes "env (Load_dotenv True) w = (Inr v, w1)"
    and "env (Getenv ''OPENAI_API_KEY'') w1 = (Inr k, w2)"
  shows "take 3 (calls (run (code_interpreter_agent env) w)) =
    [Load_dotenv True, Getenv ''OPENAI_API_KEY'', Set_openai_api_key k]"
  apply (simp add: nb_defs assms split: prod.splits sum.splits)
  apply (simp add: obs_defs)
  done

lemma code_interpreter_key_blind:
  "same_but_key (run (code_interpreter_agent scripted) (r0 # Inr k1 # rs))
     (run (code_interpreter_agent scripted) (r0 # Inr k2 # rs))"
  apply (cases r0)
   apply (simp add: nb_defs same_but_key_def obs_defs)
  apply (simp add: nb_defs same_but_key_def obs_defs scripted_case
      split: list.splits sum.splits)
  done

lemma arxiv_hands_over:
  assumes "env (Load_dotenv True) w = (Inr v, w1)"
    and "env (Getenv ''OPENAI_API_KEY'') w1 = (Inr k, w2)"
  shows "take 3 (calls (run (arxiv_research_agent env) w)) =
    [Load_dotenv True, Getenv ''OPENAI_API_KEY'', Set_openai_api_key k]"
  apply (simp add: nb_defs assms split: prod.splits sum.splits)
  apply (simp add: obs_defs)
  done

lemma arxiv_key_blind:
  "same_but_key (run (arxiv_research_agent scripted) (r0 # Inr k1 # rs))
     (run (arxiv_research_agent scripted) (r0 # Inr k2 # rs))"
  apply (cases r0)
   apply (simp add: nb_defs same_but_key_def obs_defs)
  apply (simp add: nb_defs same_but_key_def obs_defs scripted_case
      split: list.splits sum.splits)
  done

text \<open>
  Claim C4. In each of the three notebooks that read \<open>OPENAI_API_KEY\<close>, whatever
  \<open>os.getenv\<close> returns is the argument of the very next call, unchanged: the \<open>api_key\<close>
  of the LLM client in the function-agent notebook, the value assigned to
  \<open>openai.api_key\<close> in the other two. And two runs against the same outside behaviour
  (the same script of responses) that differ only in the key returned make the same
  calls, but for the key handed over, and end alike: no local control flow and no
  other argument or output depends on the key.
\<close>

theorem api_key_opaque:
  assumes "env (Load_dotenv True) w = (Inr v, w1)"
    and "env (Getenv ''OPENAI_API_KEY'') w1 = (Inr k, w2)"
  shows
    "take 3 (calls (run (function_agent env) w)) =
       [Load_dotenv True, Getenv ''OPENAI_API_KEY'', OpenAI_llm ''gpt-4o-mini'' (Some k)] \<and>
     take 3 (calls (run (code_interpreter_agent env) w)) =
       [Load_dotenv True, Getenv ''OPENAI_API_KEY'', Set_openai_api_key k] \<and>
     take 3 (calls (run (arxiv_research_agent env) w)) =
       [Load_dotenv True, Getenv ''OPENAI_API_KEY'', Set_openai_api_key k] \<and>
     same_but_key (run (function_agent scripted) (r0 # Inr k1 # rs))
       (run (function_agent scripted) (r0 # Inr k2 # rs)) \<and>
     same_but_key (run (code_interpreter_agent scripted) (r0 # Inr k1 # rs))
       (run (code_interpreter_agent scripted) (r0 # Inr k2 # rs)) \<and>
     same_but_key (run (arxiv_research_agent scripted) (r0 # Inr k1 # rs))
       (run (arxiv_research_agent scripted) (r0 # Inr k2 # rs))"
  by (simp only: function_agent_hands_over[OF assms] code_interpreter_hands_over[OF assms]
      arxiv_hands_over[OF assms] function_agent_key_blind code_interpreter_key_blind
      arxiv_key_blind simp_thms)

text \<open>
  Against the stand-in, with the key in the \<open>.env\<close> file: the key read is the one handed
  to the client; and two scripted runs with keys \<open>sk-A\<close> and \<open>sk-B\<close> make the same calls
  but for that argument.
\<close>

theorem api_key_opaque_witness:
  "take 3 (calls (run (function_agent stub_lib) keyed_world)) =
     [Load_dotenv True, Getenv ''OPENAI_API_KEY'',
      OpenAI_llm ''gpt-4o-mini'' (Some (PStr ''sk-from-file''))] \<and>
   map redact (calls (run (function_agent scripted)
       [Inr (PBool True), Inr (PStr ''sk-A''), Inr (PObj 0), Inr (PObj 1)])) =
   map redact (calls (run (function_agent scripted)
       [Inr (PBool True), Inr (PStr ''sk-B''), Inr (PObj 0), Inr (PObj 1)]))"
  using api_key_opaque[of stub_lib keyed_world "PBool True" "load_dotenv True keyed_world"
      "PStr ''sk-from-file''" "load_dotenv True keyed_world"
      "Inr (PBool True)" "PStr ''sk-A''" "[Inr (PObj 0), Inr (PObj 1)]" "PStr ''sk-B''"]
  by (simp add: stub_defs same_but_key_def)

lemma function_agent_proceeds:
  assumes "env (Load_dotenv True) w = (Inr v, w1)"
    and "env (Getenv ''OPENAI_API_KEY'') w1 = (Inr PNone, w2)"
  shows "proceeds [Load_dotenv True, Getenv ''OPENAI_API_KEY'', OpenAI_llm ''gpt-4o-mini'' (Some PNone)]
    (run (function_agent env) w)"
  apply (simp add: nb_defs assms split: prod.splits sum.splits)
  apply (simp add: proceeds_def library_raised_def agent_built_def obs_defs)
  done

lemma code_interpreter_proceeds:
  assumes "env (Load_dotenv True) w = (Inr v, w1)"
    and "env (Getenv ''OPENAI_API_KEY'') w1 = (Inr PNone, w2)"
  shows "proceeds [Load_dotenv True, Getenv ''OPENAI_API_KEY'', Set_openai_api_key PNone]
    (run (code_interpreter_agent env) w)"
  apply (simp add: nb_defs assms split: prod.splits sum.splits)
  apply (simp add: proceeds_def library_raised_def agent_built_def obs_defs)
  done

lemma arxiv_proceeds:
  assumes "env (Load_dotenv True) w = (Inr v, w1)"
    and "env (Getenv ''OPENAI_API_KEY'') w1 = (Inr PNone, w2)"
  shows "proceeds [Load_dotenv True, Getenv ''OPENAI_API_KEY'', Set_openai_api_key PNone]
    (run (arxiv_research_agent env) w)"
  apply (simp add: nb_defs assms split: prod.splits sum.splits)
  apply (simp add: proceeds_def library_raised_def agent_built_def obs_defs)
  done

text \<open>
  Claim C5. The notebooks do not check that the key is set. When \<open>os.getenv\<close> returns
  \<open>None\<close>, the next call hands \<open>None\<close> over (as the \<open>api_key\<close> of the LLM client in the
  function-agent notebook, as \<open>openai.api_key\<close> in the other two), and the run goes on
  to construct the agent unless a call into the libraries raises: nothing local stops
  it.
\<close>

theorem missing_key_not_checked:
  assumes "env (Load_dotenv True) w = (Inr v, w1)"
    and "env (Getenv ''OPENAI_API_KEY'') w1 = (Inr PNone, w2)"
  shows
    "proceeds [Load_dotenv True, Getenv ''OPENAI_API_KEY'',
         OpenAI_llm ''gpt-4o-mini'' (Some PNone)] (run (function_agent env) w) \<and>
     proceeds [Load_dotenv True, Getenv ''OPENAI_API_KEY'', Set_openai_api_key PNone]
       (run (code_interpreter_agent env) w) \<and>
     proceeds [Load_dotenv True, Getenv ''OPENAI_API_KEY'', Set_openai_api_key PNone]
       (run (arxiv_research_agent env) w)"
  by (simp only: function_agent_proceeds[OF assms] code_interpreter_proceeds[OF assms]
      arxiv_proceeds[OF assms] simp_thms)

text \<open>
  Against the stand-in with no key anywhere: the client and the agent are constructed
  with the null key, and the refusal comes from the library, at the first turn.
\<close>

theorem missing_key_not_checked_witness:
  "calls (run (function_agent stub_lib) bare_world) =
     [Load_dotenv True, Getenv ''OPENAI_API_KEY'', OpenAI_llm ''gpt-4o-mini'' (Some PNone),
      FunctionAgent_new (PList [PFun ''multiply'']) (PObj 0)
        ''You are a helpful assistant that can multiply two numbers.'',
      Agent_run (PObj 1) ''What is 1234 * 4567?''] \<and>
   agent_built (run (function_agent stub_lib) bare_world) \<and>
   library_raised (run (function_agent stub_lib) bare_world)"
  using missing_key_not_checked[of stub_lib bare_world "PBool True" bare_world bare_world]
  by (simp add: nb_defs obs_defs stub_defs library_raised_def agent_built_def)

text \<open>
  Claim C9, on the stand-in, whose \<open>load_dotenv\<close> is modelled from the spec. The
  function-agent, code-interpreter and arXiv notebooks call \<open>load_dotenv(override=True)\<close>,
  so when the \<open>.env\<close> file defines \<open>OPENAI_API_KEY\<close> as \<open>v\<close>, the key they read and hand
  over is \<open>v\<close>, whatever the process environment held. The DuckDuckGo notebook calls
  \<open>load_dotenv()\<close>: a value the process environment already has stays, and the file's
  value is used only when there is none.
\<close>

theorem dotenv_precedence:
  assumes "dotenv_file w ''OPENAI_API_KEY'' = Some v"
  shows
    "take 3 (calls (run (function_agent stub_lib) w)) =
       [Load_dotenv True, Getenv ''OPENAI_API_KEY'',
        OpenAI_llm ''gpt-4o-mini'' (Some (PStr v))] \<and>
     take 3 (calls (run (code_interpreter_agent stub_lib) w)) =
       [Load_dotenv True, Getenv ''OPENAI_API_KEY'', Set_openai_api_key (PStr v)] \<and>
     take 3 (calls (run (arxiv_research_agent stub_lib) w)) =
       [Load_dotenv True, Getenv ''OPENAI_API_KEY'', Set_openai_api_key (PStr v)] \<and>
     take 1 (calls (run (duckduckgo_agent stub_lib) w)) = [Load_dotenv False] \<and>
     environ (final_world (run (duckduckgo_agent stub_lib) w)) ''OPENAI_API_KEY'' =
       (case environ w ''OPENAI_API_KEY'' of Some u \<Rightarrow> Some u | None \<Rightarrow> Some v)"
proof -
  have k: "getenv ''OPENAI_API_KEY'' (load_dotenv True w) = PStr v"
    using assms by (simp add: getenv_def load_dotenv_def)
  have h2: "stub_lib (Getenv ''OPENAI_API_KEY'') (load_dotenv True w) =
      (Inr (PStr v), load_dotenv True w)"
    by (simp add: k)
  have h1: "stub_lib (Load_dotenv True) w = (Inr (PBool True), load_dotenv True w)"
    by simp
  have d: "environ (final_world (run (duckduckgo_agent stub_lib) w)) ''OPENAI_API_KEY'' =
       (case environ w ''OPENAI_API_KEY'' of Some u \<Rightarrow> Some u | None \<Rightarrow> Some v)"
    using assms
    by (simp add: nb_defs obs_defs load_dotenv_def new_object_def chat_def map_add_def
        split: option.splits)
  have c: "take 1 (calls (run (duckduckgo_agent stub_lib) w)) = [Load_dotenv False]"
    apply (simp add: nb_defs split: prod.splits sum.splits)
    apply (simp add: obs_defs)
    done
  show ?thesis
    by (simp only: function_agent_hands_over[OF h1 h2] code_interpreter_hands_over[OF h1 h2]
        arxiv_hands_over[OF h1 h2] c d simp_thms)
qed

text \<open>
  With \<open>sk-from-environment\<close> in the process environment and \<open>sk-from-file\<close> in the
  file, the function-agent notebook hands over the file's key, and the DuckDuckGo
  notebook leaves the environment's key in place.
\<close>

theorem dotenv_precedence_witness:
  "take 3 (calls (run (function_agent stub_lib) keyed_world)) =
     [Load_dotenv True, Getenv ''OPENAI_API_KEY'',
      OpenAI_llm ''gpt-4o-mini'' (Some (PStr ''sk-from-file''))] \<and>
   environ (final_world (run (duckduckgo_agent stub_lib) keyed_world)) ''OPENAI_API_KEY'' =
     Some ''sk-from-environment''"
  using dotenv_precedence[of keyed_world "''sk-from-file''"]
  by (simp add: keyed_world_def)

subsection \<open>Chat turns\<close>









lemma function_agent_one_agent: "one_agent w (run (function_agent env) w)"
  apply (simp add: nb_defs split: prod.splits sum.splits)
  apply (simp add: one_agent_def constructions_def obs_defs)
  done

lemma code_interpreter_one_agent: "one_agent w (run (code_interpreter_agent env) w)"
  apply (simp add: nb_defs split: prod.splits sum.splits)
  apply (simp add: one_agent_def constructions_def obs_defs)
  done

lemma duckduckgo_one_agent: "one_agent w (run (duckduckgo_agent env) w)"
  apply (simp add: nb_defs split: prod.splits sum.splits)
  apply (simp add: one_agent_def constructions_def obs_defs)
  done

lemma arxiv_one_agent: "one_agent w (run (arxiv_research_agent env) w)"
  apply (simp add: nb_defs split: prod.splits sum.splits)
  apply (simp add: one_agent_def constructions_def obs_defs)
  done

text \<open>
  Claim C10. In every notebook and every environment the agent is constructed once (at
  most once in a run that an exception cuts short), every chat turn is a call on the
  object that construction returned and comes after it, and every call starts in the
  world the call before it left: each turn sees the state all earlier turns produced.
\<close>

theorem one_agent_per_notebook:
  "one_agent w (run (function_agent env) w) \<and>
   one_agent w (run (code_interpreter_agent env) w) \<and>
   one_agent w (run (duckduckgo_agent env) w) \<and>
   one_agent w (run (arxiv_research_agent env) w)"
  by (simp only: function_agent_one_agent code_interpreter_one_agent
      duckduckgo_one_agent arxiv_one_agent simp_thms)

text \<open>
  The stand-in's agent remembers what it is told: after the code-interpreter notebook
  it has been told all seven utterances, in order, and the DuckDuckGo notebook's second
  reply, printed last, still holds the first utterance.
\<close>

theorem one_agent_per_notebook_witness:
  "memory (final_world (run (code_interpreter_agent stub_lib) keyed_world)) =
     [turn1, turn2, turn3, turn4, turn5, turn6, turn7] \<and>
   screen (final_world (run (duckduckgo_agent stub_lib) keyed_world)) =
     [PList [PStr ''Quantum Computing and AI''],
      PList [PStr ''Quantum Computing and AI'',
             PStr ''what are the latest developments in machine learning'']] \<and>
   one_agent keyed_world (run (code_interpreter_agent stub_lib) keyed_world)"
  using one_agent_per_notebook[of keyed_world stub_lib]
  by (simp add: nb_defs obs_defs stub_defs)

subsection \<open>Local input and output\<close>

lemma function_agent_local_io: "local_io (trace (run (function_agent env) w))"
  apply (simp add: nb_defs split: prod.splits sum.splits)
  apply (simp add: local_io_def obs_defs)
  done

lemma code_interpreter_local_io: "local_io (trace (run (code_interpreter_agent env) w))"
  apply (simp add: nb_defs split: prod.splits sum.splits)
  apply (simp add: local_io_def obs_defs)
  done

lemma duckduckgo_local_io: "local_io (trace (run (duckduckgo_agent env) w))"
  apply (simp add: nb_defs split: prod.splits sum.splits)
  apply (simp add: local_io_def obs_defs)
  done

lemma arxiv_local_io: "local_io (trace (run (arxiv_research_agent env) w))"
  apply (simp add: nb_defs split: prod.splits sum.splits)
  apply (simp add: local_io_def obs_defs)
  done

text \<open>
  Claim C7. The notebooks' own code keeps nothing: in every environment the only file
  it touches is the \<open>.env\<close> file, read once by the first call, and the only output it
  produces is \<open>print\<close> of a value the call just before returned, a chat reply or the
  \<open>str\<close> of the agent's response. Every other call is a call into the libraries.
\<close>

theorem local_io_only:
  "local_io (trace (run (function_agent env) w)) \<and>
   local_io (trace (run (code_interpreter_agent env) w)) \<and>
   local_io (trace (run (duckduckgo_agent env) w)) \<and>
   local_io (trace (run (arxiv_research_agent env) w))"
  by (simp only: function_agent_local_io code_interpreter_local_io
      duckduckgo_local_io arxiv_local_io simp_thms)

text \<open>What the arXiv notebook prints against the stand-in: the one reply.\<close>

theorem local_io_only_witness:
  "screen (final_world (run (arxiv_research_agent stub_lib) keyed_world)) =
     [PList [PStr ''Whats going on with the superconductor lk-99'']] \<and>
   local_io (trace (run (arxiv_research_agent stub_lib) keyed_world))"
  using local_io_only[of stub_lib keyed_world]
  by (simp add: nb_defs obs_defs stub_defs)

end
